theory Spec2Isabelle
  imports Main "HOL-Library.Char_ord" "HOL-Library.List_Lexorder" "HOL-Library.Sublist"
    "HOL-Library.Multiset" "HOL-Library.Word"
begin

unbundle bit_operations_syntax

section \<open>Python string primitives used by makeprojects.py\<close>

text \<open>
  Python 2 \<open>str\<close> values are byte strings; they are modelled as \<open>string\<close>
  (lists of 8-bit characters).  The backslash has no literal form in an Isabelle string,
  so it gets a name.
\<close>

abbreviation BSLASH :: char where
  "BSLASH \<equiv> CHR 0x5C"

abbreviation SLASH :: char where
  "SLASH \<equiv> CHR ''/''"

text \<open>\<open>s.replace(a, b)\<close> for one-character \<open>a\<close> and \<open>b\<close>.\<close>

definition replace :: "char \<Rightarrow> char \<Rightarrow> string \<Rightarrow> string" where
  "replace a b s = map (\<lambda>c. if c = a then b else c) s"

text \<open>\<open>s.startswith(p)\<close> and \<open>s.endswith(p)\<close>.\<close>

definition startswith :: "string \<Rightarrow> string \<Rightarrow> bool" where
  "startswith s p = (take (length p) s = p)"

definition endswith :: "string \<Rightarrow> string \<Rightarrow> bool" where
  "endswith s p = (length p \<le> length s \<and> drop (length s - length p) s = p)"

text \<open>
  \<open>s.rfind(c)\<close> for a one-character \<open>c\<close>: the highest index holding \<open>c\<close>,
  or \<open>-1\<close> when \<open>c\<close> does not occur.
\<close>

fun rfind_from :: "char \<Rightarrow> string \<Rightarrow> int \<Rightarrow> int \<Rightarrow> int" where
  "rfind_from c [] i found = found"
| "rfind_from c (x # xs) i found = rfind_from c xs (i + 1) (if x = c then i else found)"

definition rfind :: "string \<Rightarrow> char \<Rightarrow> int" where
  "rfind s c = rfind_from c s 0 (- 1)"

text \<open>The slices \<open>s[0:i]\<close> and \<open>s[i:len(s)]\<close> for a non-negative \<open>i\<close>.\<close>

definition slice_to :: "string \<Rightarrow> int \<Rightarrow> string" where
  "slice_to s i = take (nat i) s"

definition slice_from :: "string \<Rightarrow> int \<Rightarrow> string" where
  "slice_from s i = drop (nat i) s"

text \<open>
  The exceptions the modelled code can raise: calling a method a \<open>str\<close> does not
  have, concatenating \<open>None\<close> to a \<open>str\<close>, and indexing an empty list.
\<close>

datatype error = AttributeError | TypeError | IndexError

section \<open>Path normalizer\<close>

text \<open>\<open>converttowindowsslashes\<close>: \<open>input.replace('/','\\')\<close>.\<close>

definition converttowindowsslashes :: "string \<Rightarrow> string" where
  "converttowindowsslashes input = replace SLASH BSLASH input"

text \<open>\<open>converttolinuxslashes\<close>: \<open>input.replace('\\','/')\<close>.\<close>

definition converttolinuxslashes :: "string \<Rightarrow> string" where
  "converttolinuxslashes input = replace BSLASH SLASH input"

text \<open>
  \<open>converttowindowsslasheswithendslash\<close>: after the conversion, when the result does
  not end with a backslash the source calls \<open>input.append('\\')\<close>.  A Python \<open>str\<close>
  has no \<open>append\<close> method, so that branch raises \<open>AttributeError\<close>.
\<close>

definition converttowindowsslasheswithendslash :: "string \<Rightarrow> error + string" where
  "converttowindowsslasheswithendslash input =
     (let input1 = converttowindowsslashes input
      in if \<not> endswith input1 [BSLASH] then Inl AttributeError else Inr input1)"

text \<open>
  \<open>extractgroupname\<close>.  The \<open>while\<close> loop that drops leading \<open>..\\\<close> and \<open>../\<close>
  is \<open>strip_dotdot\<close>; it removes three characters per round.
\<close>

function strip_dotdot :: "string \<Rightarrow> string" where
  "strip_dotdot newname =
     (if startswith newname [CHR ''.'', CHR ''.'', BSLASH] \<or> startswith newname ''../''
      then strip_dotdot (slice_from newname 3) else newname)"
  by pat_completeness auto
termination
proof (relation "measure length")
  show "wf (measure length)" by simp
next
  fix newname :: string
  assume "startswith newname [CHR ''.'', CHR ''.'', BSLASH] \<or> startswith newname ''../''"
  then have "newname \<noteq> []"
    by (auto simp: startswith_def)
  then show "(slice_from newname 3, newname) \<in> measure length"
    by (simp add: slice_from_def)
qed

declare strip_dotdot.simps [simp del]

text \<open>
  The index the first lines of \<open>extractgroupname\<close> settle on: the last backslash,
  else the last slash, else \<open>-1\<close>.
\<close>

definition lastseparator :: "string \<Rightarrow> int" where
  "lastseparator name =
     (let index = rfind name BSLASH
      in if index = - 1 then rfind name SLASH else index)"

text \<open>
  The name the loop works on (\<open>name[0:index]\<close>) and what the loop leaves of it.
\<close>

definition groupdirectory :: "string \<Rightarrow> string" where
  "groupdirectory name = strip_dotdot (slice_to name (lastseparator name))"

definition extractgroupname :: "string \<Rightarrow> string" where
  "extractgroupname name =
     (if lastseparator name = - 1 then ''''
      else
        let newname = groupdirectory name
        in if startswith newname [CHR ''.'', BSLASH] \<or> startswith newname ''./''
           then slice_from newname 2 else newname)"

text \<open>The four relative prefixes a group name is meant to be free of.\<close>

definition relativeprefixed :: "string \<Rightarrow> bool" where
  "relativeprefixed g \<longleftrightarrow>
     startswith g ''./'' \<or> startswith g [CHR ''.'', BSLASH] \<or>
     startswith g ''../'' \<or> startswith g [CHR ''.'', CHR ''.'', BSLASH]"

section \<open>File discovery and classification\<close>

text \<open>
  \<open>s.lower()\<close> on a Python 2 byte string maps the ASCII capitals to small letters and
  leaves every other byte alone (the default C locale).  A capital becomes its small
  letter by adding 32, which sets bit 5 of its code.
\<close>

definition lower_char :: "char \<Rightarrow> char" where
  "lower_char c =
     (if CHR ''A'' \<le> c \<and> c \<le> CHR ''Z''
      then Char (digit0 c) (digit1 c) (digit2 c) (digit3 c) (digit4 c) True (digit6 c) (digit7 c)
      else c)"

definition lower :: "string \<Rightarrow> string" where
  "lower s = map lower_char s"

text \<open>
  \<open>class SolutionData\<close>.  \<open>workingDir\<close> is set by \<open>main\<close> to the current
  directory before any project is generated; \<open>finalfolder\<close> may stay \<open>None\<close>.
\<close>

record SolutionData =
  workingDir :: string
  kind :: string
  projectname :: string
  ide :: string
  platform :: string
  configurations :: "string list"
  finalfolder :: "string option"
  exclude :: "string list"
  defines' :: "string list"
  sourcefolders :: "string list"
  includefolders :: "string list"

text \<open>\<open>class SourceFile\<close>, with its class-level defaults in \<open>SourceFile0\<close>.\<close>

record SourceFile =
  filename :: string
  directory :: string
  type :: string
  uuid :: string
  typeuuid :: string

definition SourceFile0 :: SourceFile where
  "SourceFile0 = \<lparr>filename = '''', directory = '''', type = ''cpp'', uuid = '''', typeuuid = ''''\<rparr>"

text \<open>\<open>codeExtensions\<close>: the accepted suffixes and the bucket of each, in source order.\<close>

definition codeExtensions :: "(string \<times> string) list" where
  "codeExtensions =
     [(''.c'', ''cpp''),
      (''.cpp'', ''cpp''),
      (''.hpp'', ''h''),
      (''.h'', ''h''),
      (''.hh'', ''h''),
      (''.i'', ''h''),
      (''.inc'', ''h''),
      (''.rc'', ''windowsresource''),
      (''.r'', ''macresource''),
      (''.rsrc'', ''macresource''),
      (''.hlsl'', ''hlsl'')]"

text \<open>
  The part of the operating system \<open>scandirectory\<close> reads: \<open>os.path.isdir\<close>,
  \<open>os.listdir\<close> (the names in the order the system returns them) and
  \<open>os.path.isfile\<close>.  Paths are POSIX: \<open>os.sep\<close> is the slash and
  \<open>os.path.join\<close> is \<open>posixpath.join\<close>.
\<close>

record filesystem =
  isdir :: "string \<Rightarrow> bool"
  listdir :: "string \<Rightarrow> string list"
  isfile :: "string \<Rightarrow> bool"

definition ossep :: string where
  "ossep = ''/''"

definition pathjoin :: "string \<Rightarrow> string \<Rightarrow> string" where
  "pathjoin a b =
     (if startswith b ''/'' then b
      else if a = '''' \<or> endswith a ''/'' then a @ b
      else a @ ''/'' @ b)"

text \<open>
  The exclusion loop of \<open>scandirectory\<close>: \<open>skip\<close> becomes true at the first entry
  of \<open>solution.exclude\<close> whose lowercase form equals \<open>testName\<close>.
\<close>

fun skipname :: "string list \<Rightarrow> string \<Rightarrow> bool" where
  "skipname [] testName = False"
| "skipname (e # es) testName = (if testName = lower e then True else skipname es testName)"

text \<open>
  The extension loop: the bucket of the first table row whose suffix ends \<open>testName\<close>,
  where the source appends the entry and breaks; \<open>None\<close> when the loop runs out.
\<close>

fun findextension :: "(string \<times> string) list \<Rightarrow> string \<Rightarrow> string option" where
  "findextension [] testName = None"
| "findextension (extension # rest) testName =
     (if endswith testName (fst extension) then Some (snd extension)
      else findextension rest testName)"

text \<open>
  One round of the loop over \<open>nameList\<close>; \<open>folder\<close> is the source's parameter
  \<open>directory\<close>.
\<close>

definition scanname ::
  "SolutionData \<Rightarrow> filesystem \<Rightarrow> string \<Rightarrow> string \<Rightarrow> SourceFile list \<Rightarrow> string
    \<Rightarrow> SourceFile list" where
  "scanname solution fs folder searchDir codefiles baseName =
     (let testName = lower baseName
      in if skipname (exclude solution) testName then codefiles
         else
           let fileName = pathjoin searchDir baseName
           in if isfile fs fileName then
                (case findextension codeExtensions testName of
                   None \<Rightarrow> codefiles
                 | Some t \<Rightarrow>
                     let addedname =
                           (if folder = ''.'' then baseName
                            else folder @ ossep @ baseName)
                     in codefiles @
                          [SourceFile0\<lparr>filename := addedname, directory := searchDir, type := t\<rparr>])
              else codefiles)"

definition scandirectory ::
  "SolutionData \<Rightarrow> filesystem \<Rightarrow> string \<Rightarrow> SourceFile list \<Rightarrow> SourceFile list" where
  "scandirectory solution fs folder codefiles =
     (let searchDir = pathjoin (workingDir solution) folder
      in if isdir fs searchDir
         then foldl (scanname solution fs folder searchDir) codefiles (listdir fs searchDir)
         else codefiles)"

text \<open>
  \<open>getfilelist\<close>.  \<open>scanfolder\<close> is one round of its loop over the source folders;
  the final \<open>sorted\<close> is stable and compares the names in backslash form as byte
  strings.
\<close>

definition scanfolder ::
  "SolutionData \<Rightarrow> filesystem \<Rightarrow> SourceFile list \<times> string list \<Rightarrow> string
    \<Rightarrow> SourceFile list \<times> string list" where
  "scanfolder solution fs state sourcefolder =
     (let codefiles = fst state; includedirectories = snd state;
          oldcount = length codefiles;
          codefiles = scandirectory solution fs sourcefolder codefiles
      in if length codefiles \<noteq> oldcount
         then (codefiles, includedirectories @ [sourcefolder])
         else (codefiles, includedirectories))"

definition getfilelist :: "SolutionData \<Rightarrow> filesystem \<Rightarrow> SourceFile list \<times> string list" where
  "getfilelist solution fs =
     (let state = foldl (scanfolder solution fs) ([], []) (sourcefolders solution);
          codefiles = sort_key (\<lambda>x. converttowindowsslashes (filename x)) (fst state)
      in (codefiles, snd state))"


text \<open>
  A configuration and a directory to run the scan on: the class defaults of
  \<open>SolutionData\<close> with the working directory \<open>/proj\<close> and \<open>readme.txt\<close> excluded,
  over a directory holding two sources, the excluded file and a file of no known
  extension, all of them regular files.
\<close>

definition example_solution :: SolutionData where
  "example_solution =
     \<lparr>workingDir = ''/proj'', kind = ''tool'', projectname = ''project'', ide = ''vs2010'',
      platform = ''windows'', configurations = [''Debug'', ''Internal'', ''Release''],
      finalfolder = None, exclude = [''readme.txt''], defines' = [], sourcefolders = [''.''],
      includefolders = []\<rparr>"

definition example_fs :: filesystem where
  "example_fs =
     \<lparr>isdir = (\<lambda>d. d = ''/proj/.''),
      listdir = (\<lambda>d. if d = ''/proj/.'' then [''notes.md'', ''b.h'', ''readme.txt'', ''a.cpp'']
                      else []),
      isfile = (\<lambda>f. True)\<rparr>"

section \<open>Identifiers\<close>

subsection \<open>\<open>hashlib.md5\<close>\<close>

text \<open>
  The MD5 message digest of RFC 1321, as \<open>hashlib.md5(s).hexdigest()\<close> computes it:
  the bytes of the message are padded to a multiple of 64, cut into blocks of sixteen
  little-endian 32-bit words, and each block is mixed into four 32-bit registers in 64
  steps.  Additions wrap modulo \<open>2 ^ 32\<close>, as the word type does.
\<close>

definition md5_shifts :: "nat list" where
  "md5_shifts =
     [7, 12, 17, 22, 7, 12, 17, 22, 7, 12, 17, 22, 7, 12, 17, 22,
      5, 9, 14, 20, 5, 9, 14, 20, 5, 9, 14, 20, 5, 9, 14, 20,
      4, 11, 16, 23, 4, 11, 16, 23, 4, 11, 16, 23, 4, 11, 16, 23,
      6, 10, 15, 21, 6, 10, 15, 21, 6, 10, 15, 21, 6, 10, 15, 21]"

definition md5_sines :: "32 word list" where
  "md5_sines =
     [0xd76aa478, 0xe8c7b756, 0x242070db, 0xc1bdceee,
      0xf57c0faf, 0x4787c62a, 0xa8304613, 0xfd469501,
      0x698098d8, 0x8b44f7af, 0xffff5bb1, 0x895cd7be,
      0x6b901122, 0xfd987193, 0xa679438e, 0x49b40821,
      0xf61e2562, 0xc040b340, 0x265e5a51, 0xe9b6c7aa,
      0xd62f105d, 0x02441453, 0xd8a1e681, 0xe7d3fbc8,
      0x21e1cde6, 0xc33707d6, 0xf4d50d87, 0x455a14ed,
      0xa9e3e905, 0xfcefa3f8, 0x676f02d9, 0x8d2a4c8a,
      0xfffa3942, 0x8771f681, 0x6d9d6122, 0xfde5380c,
      0xa4beea44, 0x4bdecfa9, 0xf6bb4b60, 0xbebfbc70,
      0x289b7ec6, 0xeaa127fa, 0xd4ef3085, 0x04881d05,
      0xd9d4d039, 0xe6db99e5, 0x1fa27cf8, 0xc4ac5665,
      0xf4292244, 0x432aff97, 0xab9423a7, 0xfc93a039,
      0x655b59c3, 0x8f0ccc92, 0xffeff47d, 0x85845dd1,
      0x6fa87e4f, 0xfe2ce6e0, 0xa3014314, 0x4e0811a1,
      0xf7537e82, 0xbd3af235, 0x2ad7d2bb, 0xeb86d391]"

text \<open>
  Bytes are kept as 32-bit words below 256.  \<open>le_bytes n w\<close> is the \<open>n\<close> low
  bytes of a word, lowest first.
\<close>

definition le_bytes :: "nat \<Rightarrow> 'a::len word \<Rightarrow> 32 word list" where
  "le_bytes n w = map (\<lambda>i. ucast (drop_bit (8 * i) w AND 0xff)) [0..<n]"

text \<open>
  Padding: the byte \<open>0x80\<close>, zero bytes up to 56 modulo 64, and the length of the
  message in bits as eight little-endian bytes (the length wraps at \<open>2 ^ 64\<close>).
\<close>

definition md5_pad :: "string \<Rightarrow> 32 word list" where
  "md5_pad s =
     map of_char s @ [0x80] @ replicate ((119 - length s mod 64) mod 64) 0 @
     le_bytes 8 (8 * (of_nat (length s) :: 64 word))"

definition md5_words :: "32 word list \<Rightarrow> 32 word list" where
  "md5_words block =
     map (\<lambda>i. block ! (4 * i) + push_bit 8 (block ! (4 * i + 1)) +
              push_bit 16 (block ! (4 * i + 2)) + push_bit 24 (block ! (4 * i + 3)))
       [0..<16]"

definition md5_blocks :: "32 word list \<Rightarrow> 32 word list list" where
  "md5_blocks bytes =
     map (\<lambda>i. md5_words (take 64 (drop (64 * i) bytes))) [0..<length bytes div 64]"

definition md5_step ::
  "32 word list \<Rightarrow> 32 word \<times> 32 word \<times> 32 word \<times> 32 word \<Rightarrow> nat
    \<Rightarrow> 32 word \<times> 32 word \<times> 32 word \<times> 32 word" where
  "md5_step m st i =
     (case st of (a, b, c, d) \<Rightarrow>
        let f = (if i < 16 then (b AND c) OR (NOT b AND d)
                 else if i < 32 then (d AND b) OR (NOT d AND c)
                 else if i < 48 then b XOR c XOR d
                 else c XOR (b OR NOT d));
            g = (if i < 16 then i
                 else if i < 32 then (5 * i + 1) mod 16
                 else if i < 48 then (3 * i + 5) mod 16
                 else (7 * i) mod 16);
            f = f + a + md5_sines ! i + m ! g
        in (d, b + word_rotl (md5_shifts ! i) f, b, c))"

definition md5_block ::
  "32 word \<times> 32 word \<times> 32 word \<times> 32 word \<Rightarrow> 32 word list
    \<Rightarrow> 32 word \<times> 32 word \<times> 32 word \<times> 32 word" where
  "md5_block st m =
     (case st of (a0, b0, c0, d0) \<Rightarrow>
        case foldl (md5_step m) st [0..<64] of (a, b, c, d) \<Rightarrow>
          (a0 + a, b0 + b, c0 + c, d0 + d))"

definition md5_digest :: "string \<Rightarrow> 32 word list" where
  "md5_digest s =
     (case foldl md5_block (0x67452301, 0xefcdab89, 0x98badcfe, 0x10325476)
             (md5_blocks (md5_pad s)) of
        (a, b, c, d) \<Rightarrow> concat (map (le_bytes 4) [a, b, c, d]))"

definition hexbyte :: "32 word \<Rightarrow> string" where
  "hexbyte b =
     [''0123456789abcdef'' ! unat (drop_bit 4 b), ''0123456789abcdef'' ! unat (b AND 0xf)]"

definition md5_hexdigest :: "string \<Rightarrow> string" where
  "md5_hexdigest s = concat (map hexbyte (md5_digest s))"

text \<open>\<open>s.upper()\<close>: the ASCII small letters become capitals (bit 5 cleared).\<close>

definition upper_char :: "char \<Rightarrow> char" where
  "upper_char c =
     (if CHR ''a'' \<le> c \<and> c \<le> CHR ''z''
      then Char (digit0 c) (digit1 c) (digit2 c) (digit3 c) (digit4 c) False (digit6 c) (digit7 c)
      else c)"

definition upper :: "string \<Rightarrow> string" where
  "upper s = map upper_char s"

subsection \<open>\<open>xcodeuuid\<close>\<close>

text \<open>
  \<open>xcodeuuid\<close>: the MD5 of the key with slashes turned into backslashes, in capital
  hexadecimal digits, cut to the first 24 of them (96 bits).
\<close>

definition xcodeuuid :: "string \<Rightarrow> string" where
  "xcodeuuid input =
     (let input = md5_hexdigest (replace SLASH BSLASH input);
          input = upper input
      in take 24 input)"

section \<open>Xcode project model\<close>

subsection \<open>Project codes and project-level identifiers\<close>

text \<open>\<open>getidecode\<close> and \<open>getplatformcode\<close>; \<open>None\<close> when no branch matches.\<close>

definition getidecode :: "SolutionData \<Rightarrow> string option" where
  "getidecode solution =
     (if ide solution = ''xcode3'' then Some ''xc3''
      else if ide solution = ''xcode4'' then Some ''xc4''
      else if ide solution = ''xcode5'' then Some ''xc5''
      else if ide solution = ''vs2003'' then Some ''vc7''
      else if ide solution = ''vs2005'' then Some ''vc8''
      else if ide solution = ''vs2008'' then Some ''vc9''
      else if ide solution = ''vs2010'' then Some ''v10''
      else if ide solution = ''vs2012'' then Some ''v11''
      else if ide solution = ''codeblocks'' then Some ''cdb''
      else if ide solution = ''watcom'' then Some ''wat''
      else if ide solution = ''codewarrior'' \<and> platform solution = ''windows'' then Some ''cw9''
      else if ide solution = ''codewarrior'' \<and> platform solution = ''mac'' then Some ''c10''
      else None)"

definition getplatformcode :: "string \<Rightarrow> string option" where
  "getplatformcode p =
     (if p = ''windows'' then Some ''win''
      else if p = ''macosx'' then Some ''osx''
      else if p = ''linux'' then Some ''lnx''
      else if p = ''ps3'' then Some ''ps3''
      else if p = ''ps4'' then Some ''ps4''
      else if p = ''xbox'' then Some ''xbx''
      else if p = ''xbox360'' then Some ''x36''
      else if p = ''xboxone'' then Some ''one''
      else if p = ''shield'' then Some ''shi''
      else if p = ''ios'' then Some ''ios''
      else if p = ''mac'' then Some ''mac''
      else if p = ''msdos'' then Some ''dos''
      else if p = ''beos'' then Some ''bos''
      else if p = ''ouya'' then Some ''oya''
      else None)"

text \<open>
  \<open>projectnamecode = str(solution.projectname + idecode + platformcode)\<close>: adding
  \<open>None\<close> to a \<open>str\<close> raises \<open>TypeError\<close>.  \<open>projectcodes\<close> returns
  \<open>idecode\<close> together with \<open>projectnamecode\<close>.
\<close>

definition projectcodes :: "SolutionData \<Rightarrow> error + string \<times> string" where
  "projectcodes solution =
     (case getidecode solution of
        None \<Rightarrow> Inl TypeError
      | Some idecode \<Rightarrow>
          (case getplatformcode (platform solution) of
             None \<Rightarrow> Inl TypeError
           | Some platformcode \<Rightarrow>
               Inr (idecode, projectname solution @ idecode @ platformcode)))"

text \<open>
  The frameworks, the configuration file and the output file of
  \<open>createxcodesolution\<close>, which depend on the project kind.
\<close>

definition frameworks :: "SolutionData \<Rightarrow> string list" where
  "frameworks solution = (if kind solution = ''library'' then [] else [''AppKit.framework''])"

definition configfilename :: "SolutionData \<Rightarrow> string" where
  "configfilename solution =
     (if kind solution = ''library'' then ''burger.libxcoosx.xcconfig''
      else ''burger.toolxcoosx.xcconfig'')"

definition outputfilename :: "SolutionData \<Rightarrow> string \<Rightarrow> string" where
  "outputfilename solution idecode =
     (if kind solution = ''library'' then ''libburgerbase'' @ idecode @ ''osx.a''
      else projectname solution)"

text \<open>
  The identifiers \<open>createxcodesolution\<close> gives the objects of the project itself: the
  "semi-global uuids", the identifier of the output file and the identifier of the
  Products group, which the source writes as a literal.
\<close>

record xcodeuuids =
  rootuuid :: string
  shellscriptuuid :: string
  frameworksuuid :: string
  sourcesuuid :: string
  headersuuid :: string
  nativetargetuuid :: string
  tonativetargetuuid :: string
  pbxprojectuuid :: string
  projectnameuuid :: string
  configfileuuid :: string
  outputuuid :: string
  productsuuid :: string

definition solutionuuids :: "SolutionData \<Rightarrow> error + xcodeuuids" where
  "solutionuuids solution =
     (case projectcodes solution of
        Inl e \<Rightarrow> Inl e
      | Inr (idecode, code) \<Rightarrow>
          Inr \<lparr>rootuuid = xcodeuuid (''PBXProjectRoot'' @ code),
               shellscriptuuid = xcodeuuid (''PBXShellScriptBuildPhase'' @ code),
               frameworksuuid = xcodeuuid (''PBXFrameworksBuildPhase'' @ code),
               sourcesuuid = xcodeuuid (''PBXSourcesBuildPhase'' @ code),
               headersuuid = xcodeuuid (''PBXHeadersBuildPhase'' @ code),
               nativetargetuuid = xcodeuuid (''PBXNativeTarget'' @ code),
               tonativetargetuuid = xcodeuuid (''ToPBXNativeTarget'' @ code),
               pbxprojectuuid = xcodeuuid (''PBXProject'' @ code),
               projectnameuuid = xcodeuuid (projectname solution),
               configfileuuid = xcodeuuid (configfilename solution),
               outputuuid = xcodeuuid (outputfilename solution idecode @ '':'' @ code),
               productsuuid = ''1AB674ADFE9D54B511CA2CBB''\<rparr>)"

subsection \<open>The catalog inside \<open>createxcodesolution\<close>\<close>

text \<open>
  The first loop rewrites the \<open>filename\<close> of every catalog entry to slashes, in place;
  the list is then sorted by that name.
\<close>

definition fixupfilename :: "SourceFile \<Rightarrow> SourceFile" where
  "fixupfilename fixup = fixup\<lparr>filename := converttolinuxslashes (filename fixup)\<rparr>"

definition fixupcodefiles :: "SourceFile list \<Rightarrow> SourceFile list" where
  "fixupcodefiles codefiles = sort_key filename (map fixupfilename codefiles)"

text \<open>
  The loop of the PBXBuildFile section: entries of the buckets \<open>cpp\<close> and \<open>h\<close> get
  their two identifiers and go on to \<open>toprocess\<close>, every other entry is passed over.
\<close>

definition buildphase :: "SourceFile \<Rightarrow> string option" where
  "buildphase item =
     (if type item = ''cpp'' then Some ''Sources''
      else if type item = ''h'' then Some ''Headers''
      else None)"

definition attachuuids :: "SourceFile \<Rightarrow> SourceFile" where
  "attachuuids item =
     (case buildphase item of
        None \<Rightarrow> item
      | Some phase \<Rightarrow>
          item\<lparr>uuid := xcodeuuid (filename item),
               typeuuid := xcodeuuid (filename item @ '':'' @ phase)\<rparr>)"

definition frameworkitem :: "string \<Rightarrow> SourceFile" where
  "frameworkitem framework =
     SourceFile0\<lparr>filename := framework, type := ''frameworks'',
       uuid := xcodeuuid framework, typeuuid := xcodeuuid (framework @ '':Frameworks'')\<rparr>"

definition toprocess :: "SolutionData \<Rightarrow> SourceFile list \<Rightarrow> SourceFile list" where
  "toprocess solution codefiles =
     map attachuuids (filter (\<lambda>item. buildphase item \<noteq> None) codefiles) @
     map frameworkitem (frameworks solution)"

text \<open>
  \<open>codefiles\<close> is then rebound to \<open>toprocess\<close> sorted by \<open>typeuuid\<close>, and
  \<open>toprocess = codefiles\<close> makes both names one list: the entries of the configuration
  file and of the output file, appended to \<open>toprocess\<close>, are in \<open>codefiles\<close> as well
  when the groups are built.
\<close>

definition xcodecodefiles :: "SolutionData \<Rightarrow> SourceFile list \<Rightarrow> error + SourceFile list" where
  "xcodecodefiles solution catalog =
     (case projectcodes solution of
        Inl e \<Rightarrow> Inl e
      | Inr (idecode, code) \<Rightarrow>
          let codefiles = fixupcodefiles catalog;
              codefiles = sort_key typeuuid (toprocess solution codefiles);
              entry1 = SourceFile0\<lparr>filename := configfilename solution,
                         uuid := xcodeuuid (configfilename solution), type := ''text.xcconfig''\<rparr>;
              entry2 = SourceFile0\<lparr>type := (if kind solution = ''library'' then ''lib'' else ''exe''),
                         filename := outputfilename solution idecode,
                         uuid := xcodeuuid (outputfilename solution idecode @ '':'' @ code)\<rparr>
          in Inr (codefiles @ [entry1, entry2]))"

subsection \<open>Groups and the group tree\<close>

text \<open>
  A Python \<open>dict\<close> is an association list with one pair per key; \<open>map_of\<close> reads
  it and \<open>setitem\<close> is \<open>d[k] = v\<close>.  The pairs are listed in the order the keys were
  first stored.  Python 2 iterates a \<open>dict\<close> in an order of its own, so the functions
  below that iterate over keys take the order as an argument or are stated for every
  order.
\<close>

fun setitem :: "('k \<times> 'v) list \<Rightarrow> 'k \<Rightarrow> 'v \<Rightarrow> ('k \<times> 'v) list" where
  "setitem [] k v = [(k, v)]"
| "setitem (p # d) k v = (if fst p = k then (k, v) # d else p # setitem d k v)"

text \<open>
  The body of the grouping loops: the value goes to the end of the list stored under
  the group name, a new list when the name is new.
\<close>

definition appendto :: "('k \<times> 'v list) list \<Rightarrow> 'k \<Rightarrow> 'v \<Rightarrow> ('k \<times> 'v list) list" where
  "appendto groups groupname x =
     (case map_of groups groupname of
        Some members \<Rightarrow> setitem groups groupname (members @ [x])
      | None \<Rightarrow> setitem groups groupname [x])"

text \<open>
  The grouping loop of \<open>createxcodesolution\<close> stores the entries themselves under
  the group name of their file name.
\<close>

definition makegroups :: "SourceFile list \<Rightarrow> (string \<times> SourceFile list) list" where
  "makegroups codefiles =
     foldl (\<lambda>groups item. appendto groups (extractgroupname (filename item)) item) [] codefiles"


text \<open>\<open>s.split(sep)\<close> for a one-character separator.\<close>

fun split :: "char \<Rightarrow> string \<Rightarrow> string list" where
  "split sep [] = [[]]"
| "split sep (c # cs) =
     (if c = sep then [] # split sep cs
      else (c # hd (split sep cs)) # tl (split sep cs))"

text \<open>
  The tree is a \<open>dict\<close> of \<open>dict\<close>s.  \<open>inserttree\<close> is the inner loop over the parts
  of one group name: a missing part gets an empty \<open>dict\<close>, and the walk steps into it.
\<close>

datatype tree = Dict "(string \<times> tree) list"

fun items :: "tree \<Rightarrow> (string \<times> tree) list" where
  "items (Dict d) = d"

fun inserttree :: "tree \<Rightarrow> string list \<Rightarrow> tree" where
  "inserttree next [] = next"
| "inserttree next (part # parts) =
     (let sub = (case map_of (items next) part of None \<Rightarrow> Dict [] | Some t \<Rightarrow> t)
      in Dict (setitem (items next) part (inserttree sub parts)))"

text \<open>
  The outer loop, \<open>for group in groups\<close>, over the group names in the order
  \<open>keys\<close>; the separator is the slash for Xcode and the backslash for Visual Studio.
\<close>

definition maketree :: "char \<Rightarrow> string list \<Rightarrow> tree" where
  "maketree sep keys = foldl (\<lambda>tree group. inserttree tree (split sep group)) (Dict []) keys"

text \<open>The nodes of a tree, each as the list of parts leading to it from the root.\<close>

fun treenodes :: "tree \<Rightarrow> string list list"
  and itemnodes :: "(string \<times> tree) list \<Rightarrow> string list list" where
  "treenodes (Dict d) = itemnodes d"
| "itemnodes [] = []"
| "itemnodes (p # d) = [fst p] # map ((#) (fst p)) (treenodes (snd p)) @ itemnodes d"

subsection \<open>\<open>dumptreevsxcode\<close>\<close>

text \<open>\<open>os.path.basename\<close>: what follows the last slash.\<close>

definition basename :: "string \<Rightarrow> string" where
  "basename p = slice_from p (rfind p SLASH + 1)"

abbreviation NL :: string where
  "NL \<equiv> [CHR 0x0A]"

definition tabs :: "nat \<Rightarrow> string" where
  "tabs n = replicate n (CHR 0x09)"

text \<open>The text of one PBXGroup object, as the end of \<open>dumptreevsxcode\<close> builds it.\<close>

definition groupout ::
  "string \<Rightarrow> string \<Rightarrow> string list \<Rightarrow> SourceFile list \<Rightarrow> string \<Rightarrow> string" where
  "groupout groupuuid base children sortlist path =
     tabs 2 @ groupuuid @ '' /* '' @ base @ '' */ = {'' @ NL @
     tabs 3 @ ''isa = PBXGroup;'' @ NL @
     tabs 3 @ ''children = ('' @ NL @
     concat (map (\<lambda>item. tabs 4 @ xcodeuuid (''PBXGroup!'' @ item) @ '' /* '' @ item @ '' */,'' @ NL)
       children) @
     concat (map (\<lambda>item. tabs 4 @ uuid item @ '' /* '' @ basename (filename item) @ '' */,'' @ NL)
       sortlist) @
     tabs 3 @ '');'' @ NL @
     tabs 3 @ ''name = '' @ base @ '';'' @ NL @
     tabs 3 @ ''path = '' @ path @ '';'' @ NL @
     tabs 3 @ ''sourceTree = SOURCE_ROOT;'' @ NL @
     tabs 2 @ ''};'' @ NL"

text \<open>
  What \<open>dumptreevsxcode\<close> does after its loop.  For the root (\<open>string\<close> empty) it
  returns the children.  Otherwise it looks up the files of the group, takes the
  directory of the first of them as the path (\<open>sortlist[0]\<close> raises \<open>IndexError\<close>
  on an empty list), derives the identifier from \<open>base\<close>, the part of \<open>string\<close> after
  its last slash, and appends the identifier and the text to \<open>xcodepbxgroups\<close>.
\<close>

definition dumpgroup ::
  "string \<Rightarrow> string list \<Rightarrow> (string \<times> string) list \<Rightarrow> (string \<times> SourceFile list) list
    \<Rightarrow> error + string list \<times> (string \<times> string) list" where
  "dumpgroup string children xcodepbxgroups groups =
     (if string = '''' then Inr (children, xcodepbxgroups)
      else
        case (case map_of groups string of
                Some members \<Rightarrow>
                  (case sort_key (\<lambda>x. converttolinuxslashes (filename x)) members of
                     [] \<Rightarrow> Inl IndexError
                   | first # rest \<Rightarrow>
                       Inr (first # rest, converttolinuxslashes (filename first)))
              | None \<Rightarrow> Inr ([], ''<group>'')) of
          Inl e \<Rightarrow> Inl e
        | Inr (sortlist, path) \<Rightarrow>
            let index = rfind string SLASH;
                base = (if index = - 1 then string else slice_from string (index + 1));
                index = rfind path SLASH;
                path = (if index \<noteq> - 1 then slice_to path index else path);
                groupuuid = xcodeuuid (''PBXGroup!'' @ base)
            in Inr ([], xcodepbxgroups @
                         [(groupuuid, groupout groupuuid base children sortlist path)]))"

text \<open>
  \<open>dumptreevsxcode\<close> itself; \<open>dumpentry\<close> is its loop over the items of \<open>entry\<close>,
  which calls \<open>dumptreevsxcode\<close> on every item with the merged path and drops what
  the call returns, keeping the groups it appended.
\<close>

fun dumptreevsxcode ::
  "string \<Rightarrow> tree \<Rightarrow> (string \<times> string) list \<Rightarrow> (string \<times> SourceFile list) list
    \<Rightarrow> error + string list \<times> (string \<times> string) list"
  and dumpentry ::
  "string \<Rightarrow> (string \<times> tree) list \<Rightarrow> string list \<Rightarrow> (string \<times> string) list
    \<Rightarrow> (string \<times> SourceFile list) list \<Rightarrow> error + string list \<times> (string \<times> string) list"
  where
  "dumptreevsxcode string (Dict d) xcodepbxgroups groups =
     (case dumpentry string d [] xcodepbxgroups groups of
        Inl e \<Rightarrow> Inl e
      | Inr r \<Rightarrow> dumpgroup string (fst r) (snd r) groups)"
| "dumpentry string [] children xcodepbxgroups groups = Inr (children, xcodepbxgroups)"
| "dumpentry string (p # d) children xcodepbxgroups groups =
     (let item = fst p; key = snd p;
          merged = (if string = '''' then item else string @ ''/'' @ item)
      in case dumptreevsxcode merged key xcodepbxgroups groups of
           Inl e \<Rightarrow> Inl e
         | Inr r \<Rightarrow> dumpentry string d (children @ [item]) (snd r) groups)"

text \<open>
  The entries of the catalog as \<open>createxcodesolution\<close> leaves them: the first loop
  has rewritten the file names, and the loop of the PBXBuildFile section has attached
  the identifiers to the entries of the buckets \<open>cpp\<close> and \<open>h\<close>.  The entries are
  Python objects changed in place, so \<open>attachuuids (fixupfilename e)\<close> is what the
  entry \<open>e\<close> of the catalog has become, wherever a list holds it.
\<close>

definition xcodecatalog :: "SourceFile list \<Rightarrow> SourceFile list" where
  "xcodecatalog catalog = map attachuuids (fixupcodefiles catalog)"

text \<open>
  A configuration whose source folder is written with a backslash,
  \<open>src\\core\<close>, over a file system holding that folder with one source file.
\<close>

definition backslash_solution :: SolutionData where
  "backslash_solution = example_solution\<lparr>sourcefolders := [''src'' @ [BSLASH] @ ''core'']\<rparr>"

definition backslash_fs :: filesystem where
  "backslash_fs =
     \<lparr>isdir = (\<lambda>d. d = ''/proj/src'' @ [BSLASH] @ ''core''),
      listdir = (\<lambda>d. [''a.cpp'']),
      isfile = (\<lambda>f. True)\<rparr>"

text \<open>Two Xcode projects that differ in their name only.\<close>

definition alpha_solution :: SolutionData where
  "alpha_solution =
     example_solution\<lparr>projectname := ''Alpha'', ide := ''xcode3'', platform := ''macosx''\<rparr>"

definition beta_solution :: SolutionData where
  "beta_solution =
     example_solution\<lparr>projectname := ''Beta'', ide := ''xcode3'', platform := ''macosx''\<rparr>"




definition groupuuid :: "string \<Rightarrow> string" where
  "groupuuid string =
     xcodeuuid (''PBXGroup!'' @
       (if rfind string SLASH = - 1 then string
        else slice_from string (rfind string SLASH + 1)))"

subsection \<open>The model as a whole\<close>

text \<open>
  What \<open>createxcodesolution\<close> has computed when it starts to write the groups: the
  catalog and the include directories of \<open>getfilelist\<close>, the identifiers of the
  objects of the project, the entries with their identifiers as \<open>codefiles\<close> holds
  them, the group mapping of these entries and the group tree.  \<open>keyorder\<close> is the
  order in which the \<open>dict\<close> of groups yields its keys to the tree loop.
\<close>

definition xcodemodel ::
  "(string list \<Rightarrow> string list) \<Rightarrow> SolutionData \<Rightarrow> filesystem
    \<Rightarrow> error + (SourceFile list \<times> string list) \<times> xcodeuuids \<times> SourceFile list \<times>
          (string \<times> SourceFile list) list \<times> tree" where
  "xcodemodel keyorder solution fs =
     (let found = getfilelist solution fs
      in case solutionuuids solution of
           Inl e \<Rightarrow> Inl e
         | Inr ids \<Rightarrow>
             (case xcodecodefiles solution (fst found) of
                Inl e \<Rightarrow> Inl e
              | Inr codefiles \<Rightarrow>
                  let groups = makegroups codefiles;
                      tree = maketree SLASH (keyorder (map fst groups))
                  in Inr (found, ids, codefiles, groups, tree)))"

text \<open>
  The PBXGroup objects up to the call \<open>dumptreevsxcode('',tree,xcodepbxgroups,groups)\<close>:
  the list starts with the Products group, whose text names the output file, and the
  call appends one group for every node of the tree.
\<close>

definition productsout :: "string \<Rightarrow> string \<Rightarrow> string \<Rightarrow> string" where
  "productsout products output outputname =
     tabs 2 @ products @ '' /* Products */ = {'' @ NL @
     tabs 3 @ ''isa = PBXGroup;'' @ NL @
     tabs 3 @ ''children = ('' @ NL @
     tabs 4 @ output @ '' /* '' @ outputname @ '' */,'' @ NL @
     tabs 3 @ '');'' @ NL @
     tabs 3 @ ''name = Products;'' @ NL @
     tabs 3 @ ''sourceTree = '' @ [CHR 0x22] @ ''<group>'' @ [CHR 0x22] @ '';'' @ NL @
     tabs 2 @ ''};'' @ NL"

definition xcodegroups ::
  "(string list \<Rightarrow> string list) \<Rightarrow> SolutionData \<Rightarrow> filesystem
    \<Rightarrow> error + string list \<times> (string \<times> string) list" where
  "xcodegroups keyorder solution fs =
     (case xcodemodel keyorder solution fs of
        Inl e \<Rightarrow> Inl e
      | Inr (found, ids, codefiles, groups, tree) \<Rightarrow>
          (case projectcodes solution of
             Inl e \<Rightarrow> Inl e
           | Inr (idecode, code) \<Rightarrow>
               dumptreevsxcode '''' tree
                 [(productsuuid ids,
                   productsout (productsuuid ids) (outputuuid ids)
                     (outputfilename solution idecode))]
                 groups))"

subsection \<open>The files of a Visual Studio 2005 project\<close>



subsection \<open>Example projects\<close>


text \<open>
  An Xcode library project with the two source folders \<open>a/util\<close> and \<open>b/util\<close>,
  each holding one source file.
\<close>

definition util_solution :: SolutionData where
  "util_solution =
     example_solution\<lparr>kind := ''library'', projectname := ''Alpha'', ide := ''xcode3'',
       platform := ''macosx'', sourcefolders := [''a/util'', ''b/util'']\<rparr>"

definition util_fs :: filesystem where
  "util_fs =
     \<lparr>isdir = (\<lambda>d. d = ''/proj/a/util'' \<or> d = ''/proj/b/util''),
      listdir = (\<lambda>d. if d = ''/proj/a/util'' then [''x.cpp'']
                      else if d = ''/proj/b/util'' then [''y.cpp''] else []),
      isfile = (\<lambda>f. True)\<rparr>"

section \<open>Properties of the path normalizer\<close>

text \<open>
  C9 (failing input).  \<open>converttowindowsslasheswithendslash\<close> raises on the path
  \<open>a/b\<close>, which does not end with a separator: the conversion gives \<open>a\\b\<close> and
  the attempt to append the missing backslash fails with \<open>AttributeError\<close>.
\<close>

theorem converttowindowsslasheswithendslash_raises:
  "converttowindowsslasheswithendslash ''a/b'' = Inl AttributeError"
  by (simp add: converttowindowsslasheswithendslash_def converttowindowsslashes_def
      replace_def endswith_def)

lemma strip_dotdot_done:
  "\<not> startswith (strip_dotdot s) ''../'' \<and>
   \<not> startswith (strip_dotdot s) [CHR ''.'', CHR ''.'', BSLASH]"
  by (induction s rule: strip_dotdot.induct)
    (subst strip_dotdot.simps, subst (2) strip_dotdot.simps, auto)

text \<open>
  C5 (as stated, refuted).  The claim says the group name of every path is free of the
  four relative prefixes, also for \<open>././a/b.cpp\<close>.  The source removes a leading
  \<open>./\<close> once only ("remove the single prefix"), so that path gets the group
  \<open>./a\<close>.
\<close>

theorem extractgroupname_keeps_second_dot:
  "extractgroupname ''././a/b.cpp'' = ''./a'' \<and>
   relativeprefixed (extractgroupname ''././a/b.cpp'')"
  by (simp add: extractgroupname_def groupdirectory_def lastseparator_def rfind_def
      slice_to_def slice_from_def startswith_def strip_dotdot.simps relativeprefixed_def)

lemma strip_dotdot_segment:
  "u = ''../'' \<or> u = [CHR ''.'', CHR ''.'', BSLASH] \<Longrightarrow> strip_dotdot (u @ s) = strip_dotdot s"
  by (subst strip_dotdot.simps) (auto simp: startswith_def slice_from_def)

lemma strip_dotdot_stops:
  "\<not> startswith s ''../'' \<Longrightarrow> \<not> startswith s [CHR ''.'', CHR ''.'', BSLASH] \<Longrightarrow>
   strip_dotdot s = s"
  by (subst strip_dotdot.simps) simp

lemma strip_dotdot_segments:
  assumes "set ups \<subseteq> {''../'', [CHR ''.'', CHR ''.'', BSLASH]}"
    and "\<not> startswith rest ''../''" and "\<not> startswith rest [CHR ''.'', CHR ''.'', BSLASH]"
  shows "strip_dotdot (concat ups @ rest) = rest"
  using assms(1)
proof (induction ups)
  case Nil
  from assms(2,3) show ?case by (simp add: strip_dotdot_stops)
next
  case (Cons u ups)
  then have "u = ''../'' \<or> u = [CHR ''.'', CHR ''.'', BSLASH]" by simp
  then have "strip_dotdot (u @ (concat ups @ rest)) = strip_dotdot (concat ups @ rest)"
    by (rule strip_dotdot_segment)
  with Cons show ?case by simp
qed

text \<open>
  Every name splits into leading \<open>../\<close> segments and a rest that starts with none,
  so the hypotheses of the theorem below leave no path out.
\<close>

lemma dotdot_segments_exist:
  "\<exists>ups rest. s = concat ups @ rest \<and>
     set ups \<subseteq> {''../'', [CHR ''.'', CHR ''.'', BSLASH]} \<and>
     \<not> startswith rest ''../'' \<and> \<not> startswith rest [CHR ''.'', CHR ''.'', BSLASH]"
proof (induction s rule: strip_dotdot.induct)
  case (1 s)
  show ?case
  proof (cases "startswith s [CHR ''.'', CHR ''.'', BSLASH] \<or> startswith s ''../''")
    case True
    then have "take 3 s = ''../'' \<or> take 3 s = [CHR ''.'', CHR ''.'', BSLASH]"
      by (auto simp: startswith_def numeral_3_eq_3)
    moreover have "s = take 3 s @ slice_from s 3"
      by (simp add: slice_from_def)
    ultimately obtain u where u: "u = ''../'' \<or> u = [CHR ''.'', CHR ''.'', BSLASH]"
      and s: "s = u @ slice_from s 3"
      by metis
    from 1 [OF True] obtain ups rest where r: "slice_from s 3 = concat ups @ rest"
      "set ups \<subseteq> {''../'', [CHR ''.'', CHR ''.'', BSLASH]}"
      "\<not> startswith rest ''../''" "\<not> startswith rest [CHR ''.'', CHR ''.'', BSLASH]"
      by blast
    have "s = concat (u # ups) @ rest"
      using s r(1) by simp
    moreover have "set (u # ups) \<subseteq> {''../'', [CHR ''.'', CHR ''.'', BSLASH]}"
      using u r(2) by auto
    ultimately show ?thesis
      using r(3,4) by blast
  next
    case False
    then have "s = concat [] @ s \<and> set ([] :: string list) \<subseteq> {''../'', [CHR ''.'', CHR ''.'', BSLASH]} \<and>
      \<not> startswith s ''../'' \<and> \<not> startswith s [CHR ''.'', CHR ''.'', BSLASH]"
      by simp
    then show ?thesis by blast
  qed
qed

text \<open>
  C5 (amended).  \<open>extractgroupname\<close> returns the empty name for a path without a
  separator; otherwise it removes the leading \<open>../\<close> segments of the directory
  part, in either separator style, until none remain, and then one leading \<open>./\<close>,
  in either style, if there is one.  So the returned group starts with one of
  the four relative prefixes only when the single \<open>./\<close> that was removed was itself
  followed by one of them, as in \<open>././a/b.cpp\<close>; in every other case, also for a
  directory part like \<open>../.././dir\<close>, it starts with none of them.
\<close>

theorem extractgroupname_strips:
  assumes "slice_to name (lastseparator name) = concat ups @ rest"
    and "set ups \<subseteq> {''../'', [CHR ''.'', CHR ''.'', BSLASH]}"
    and "\<not> startswith rest ''../''" and "\<not> startswith rest [CHR ''.'', CHR ''.'', BSLASH]"
  shows "extractgroupname name =
      (if lastseparator name = - 1 then ''''
       else if startswith rest ''./'' \<or> startswith rest [CHR ''.'', BSLASH]
       then slice_from rest 2 else rest) \<and>
    (relativeprefixed (extractgroupname name) \<longleftrightarrow>
       lastseparator name \<noteq> - 1 \<and>
       (startswith rest ''./'' \<or> startswith rest [CHR ''.'', BSLASH]) \<and>
       relativeprefixed (slice_from rest 2))"
proof (cases "lastseparator name = - 1")
  case True
  then have "extractgroupname name = ''''"
    by (simp add: extractgroupname_def)
  with True show ?thesis
    by (simp add: relativeprefixed_def startswith_def)
next
  case False
  have "groupdirectory name = rest"
    unfolding groupdirectory_def assms(1) using assms(2,3,4) by (rule strip_dotdot_segments)
  with False have e: "extractgroupname name =
      (if startswith rest ''./'' \<or> startswith rest [CHR ''.'', BSLASH]
       then slice_from rest 2 else rest)"
    by (auto simp: extractgroupname_def)
  have "\<not> relativeprefixed rest"
    if "\<not> (startswith rest ''./'' \<or> startswith rest [CHR ''.'', BSLASH])"
    using that assms(3,4) by (simp add: relativeprefixed_def)
  with e False show ?thesis by auto
qed

theorem extractgroupname_strips_witness:
  "slice_to ''../.././src/core/a.cpp'' (lastseparator ''../.././src/core/a.cpp'') =
     concat [''../'', ''../''] @ ''./src/core'' \<and>
   \<not> startswith ''./src/core'' ''../'' \<and>
   \<not> startswith ''./src/core'' [CHR ''.'', CHR ''.'', BSLASH] \<and>
   lastseparator ''../.././src/core/a.cpp'' \<noteq> - 1 \<and>
   startswith ''./src/core'' ''./'' \<and>
   extractgroupname ''../.././src/core/a.cpp'' = ''src/core'' \<and>
   \<not> relativeprefixed (extractgroupname ''../.././src/core/a.cpp'')"
proof -
  have l: "lastseparator ''../.././src/core/a.cpp'' = 16"
    by (simp add: lastseparator_def rfind_def)
  have h1: "lastseparator ''../.././src/core/a.cpp'' \<noteq> - 1"
    by (simp add: l)
  have h2: "slice_to ''../.././src/core/a.cpp'' (lastseparator ''../.././src/core/a.cpp'') =
      concat [''../'', ''../''] @ ''./src/core''"
    by (simp add: l slice_to_def)
  have h3: "set [''../'', ''../''] \<subseteq> {''../'', [CHR ''.'', CHR ''.'', BSLASH]}"
    by simp
  have h4: "\<not> startswith ''./src/core'' ''../''"
    and h5: "\<not> startswith ''./src/core'' [CHR ''.'', CHR ''.'', BSLASH]"
    and h6: "startswith ''./src/core'' ''./''"
    by (simp_all add: startswith_def)
  from extractgroupname_strips [OF h2 h3 h4 h5] h1 h2 h4 h5 h6 show ?thesis
    by (simp add: startswith_def slice_from_def relativeprefixed_def)
qed

section \<open>Properties of file discovery\<close>

lemma skipname_iff: "skipname es t \<longleftrightarrow> t \<in> lower ` set es"
  by (induction es) auto

lemma scanname_excluded:
  "lower baseName \<in> lower ` set (exclude solution) \<Longrightarrow>
   scanname solution fs folder searchDir codefiles baseName = codefiles"
  by (simp add: scanname_def skipname_iff)

lemma scanname_listdir:
  "scanname solution (fs\<lparr>listdir := l\<rparr>) = scanname solution fs"
  by (intro ext) (simp add: scanname_def Let_def)

lemma foldl_scanname_filter:
  "foldl (scanname solution fs folder searchDir) codefiles
     (filter (\<lambda>baseName. lower baseName \<notin> lower ` set (exclude solution)) names) =
   foldl (scanname solution fs folder searchDir) codefiles names"
  by (induction names arbitrary: codefiles) (auto simp: scanname_excluded)

lemma scandirectory_erase:
  "scandirectory solution
     (fs\<lparr>listdir := \<lambda>d. filter (\<lambda>baseName. lower baseName \<notin> lower ` set (exclude solution))
        (listdir fs d)\<rparr>) = scandirectory solution fs"
  by (intro ext) (simp add: scandirectory_def Let_def foldl_scanname_filter scanname_listdir)

lemma endswith_suffix: "endswith s p \<longleftrightarrow> suffix p s"
proof
  assume "endswith s p"
  then have "s = take (length s - length p) s @ p"
    by (metis append_take_drop_id endswith_def)
  then show "suffix p s"
    by (metis suffixI)
next
  assume "suffix p s"
  then obtain q where "s = q @ p"
    by (auto simp: suffix_def)
  then show "endswith s p"
    by (simp add: endswith_def)
qed

lemma findextension_Some:
  "findextension tab t = Some c \<Longrightarrow> \<exists>e. (e, c) \<in> set tab \<and> endswith t e"
  by (induction tab) (auto split: if_splits)

lemma findextension_None:
  "findextension tab t = None \<longleftrightarrow> (\<forall>(e, c) \<in> set tab. \<not> endswith t e)"
  by (induction tab) (auto split: if_splits)

text \<open>
  Every suffix of the table is a dot followed by dot-free characters, so a name ends
  with at most one of them.
\<close>

lemma dotted_suffix_unique:
  assumes "suffix (CHR ''.'' # w1) t" "suffix (CHR ''.'' # w2) t"
    and "CHR ''.'' \<notin> set w1" "CHR ''.'' \<notin> set w2"
  shows "w1 = w2"
proof -
  have "suffix (CHR ''.'' # w1) (CHR ''.'' # w2) \<or> suffix (CHR ''.'' # w2) (CHR ''.'' # w1)"
    using assms(1,2) by (rule suffix_same_cases)
  then show ?thesis
  proof
    assume "suffix (CHR ''.'' # w1) (CHR ''.'' # w2)"
    then have "w1 = w2 \<or> suffix (CHR ''.'' # w1) w2"
      by (auto simp: suffix_Cons)
    with assms(4) show ?thesis
      by (auto dest: set_mono_suffix)
  next
    assume "suffix (CHR ''.'' # w2) (CHR ''.'' # w1)"
    then have "w2 = w1 \<or> suffix (CHR ''.'' # w2) w1"
      by (auto simp: suffix_Cons)
    with assms(3) show ?thesis
      by (auto dest: set_mono_suffix)
  qed
qed

lemma codeExtensions_dotted:
  "(e, c) \<in> set codeExtensions \<Longrightarrow> \<exists>w. e = CHR ''.'' # w \<and> CHR ''.'' \<notin> set w"
  by (auto simp: codeExtensions_def)

lemma codeExtensions_distinct: "distinct (map fst codeExtensions)"
  by (simp add: codeExtensions_def)

lemma codeExtensions_unique:
  assumes "(e1, c1) \<in> set codeExtensions" "(e2, c2) \<in> set codeExtensions"
    and "endswith t e1" "endswith t e2"
  shows "c1 = c2"
proof -
  obtain w1 where w1: "e1 = CHR ''.'' # w1" "CHR ''.'' \<notin> set w1"
    using codeExtensions_dotted [OF assms(1)] by blast
  obtain w2 where w2: "e2 = CHR ''.'' # w2" "CHR ''.'' \<notin> set w2"
    using codeExtensions_dotted [OF assms(2)] by blast
  have "w1 = w2"
    using assms(3,4) w1 w2 by (auto simp: endswith_suffix intro: dotted_suffix_unique)
  with w1 w2 have "e1 = e2" by simp
  with assms(1,2) show ?thesis
    using codeExtensions_distinct by (metis eq_key_imp_eq_value)
qed

lemma findextension_codeExtensions:
  assumes "(e, c) \<in> set codeExtensions" "endswith t e"
  shows "findextension codeExtensions t = Some c"
proof (cases "findextension codeExtensions t")
  case None
  with assms show ?thesis by (auto simp: findextension_None)
next
  case (Some c')
  then obtain e' where "(e', c') \<in> set codeExtensions" "endswith t e'"
    using findextension_Some by blast
  with assms have "c' = c" using codeExtensions_unique by blast
  with Some show ?thesis by simp
qed
text \<open>
  C6.  A directory entry whose lowercase name equals the lowercase form of an entry of
  the exclusion list is never added: the round of the scan loop for it leaves the
  catalog as it was, whatever its extension and whether or not it is a regular file,
  and the whole of \<open>getfilelist\<close> returns what it returns on a file system from whose
  listings every such name has been removed.
\<close>

theorem excluded_never_in_catalog:
  "(lower baseName \<in> lower ` set (exclude solution) \<longrightarrow>
      scanname solution fs folder searchDir codefiles baseName = codefiles) \<and>
   getfilelist solution
     (fs\<lparr>listdir := \<lambda>d. filter (\<lambda>baseName. lower baseName \<notin> lower ` set (exclude solution))
        (listdir fs d)\<rparr>) = getfilelist solution fs"
proof -
  have "scanfolder solution
     (fs\<lparr>listdir := \<lambda>d. filter (\<lambda>baseName. lower baseName \<notin> lower ` set (exclude solution))
        (listdir fs d)\<rparr>) = scanfolder solution fs"
    by (intro ext) (simp only: scanfolder_def scandirectory_erase)
  then show ?thesis
    by (simp add: getfilelist_def scanname_excluded)
qed

theorem excluded_never_in_catalog_witness:
  "lower ''README.cpp'' \<in> lower ` set (exclude (example_solution\<lparr>exclude := [''ReadMe.CPP'']\<rparr>)) \<and>
   scanname (example_solution\<lparr>exclude := [''ReadMe.CPP'']\<rparr>) example_fs ''.'' ''/proj/.'' []
     ''README.cpp'' = []"
proof -
  have h: "lower ''README.cpp'' \<in>
      lower ` set (exclude (example_solution\<lparr>exclude := [''ReadMe.CPP'']\<rparr>))"
    by (simp add: lower_def lower_char_def)
  from excluded_never_in_catalog [of "''README.cpp''"
      "example_solution\<lparr>exclude := [''ReadMe.CPP'']\<rparr>" example_fs "''.''" "''/proj/.''" "[]"] h
  show ?thesis by blast
qed

text \<open>
  C7.  For a non-excluded regular file, the round of the scan loop appends exactly one
  entry, of the bucket the table gives, when the lowercase name ends with a suffix of
  the table (\<open>cpp\<close> is the translation unit, \<open>h\<close> the header, \<open>windowsresource\<close>
  and \<open>macresource\<close> the platform resources, \<open>hlsl\<close> the shader), and appends
  nothing when no suffix of the table ends the name.
\<close>

theorem scanname_classifies:
  assumes "lower baseName \<notin> lower ` set (exclude solution)"
    and "isfile fs (pathjoin searchDir baseName)"
  shows
    "((ext, cat) \<in> {(''.c'', ''cpp''), (''.cpp'', ''cpp''),
          (''.h'', ''h''), (''.hpp'', ''h''), (''.hh'', ''h''), (''.i'', ''h''), (''.inc'', ''h''),
          (''.rc'', ''windowsresource''), (''.r'', ''macresource''), (''.rsrc'', ''macresource''),
          (''.hlsl'', ''hlsl'')} \<and> endswith (lower baseName) ext \<longrightarrow>
        scanname solution fs folder searchDir codefiles baseName =
          codefiles @
            [\<lparr>filename = (if folder = ''.'' then baseName else folder @ ''/'' @ baseName),
              directory = searchDir, type = cat, uuid = '''', typeuuid = ''''\<rparr>]) \<and>
     ((\<forall>e \<in> set (map fst codeExtensions). \<not> endswith (lower baseName) e) \<longrightarrow>
        scanname solution fs folder searchDir codefiles baseName = codefiles)"
proof (intro conjI impI)
  assume a: "(ext, cat) \<in> {(''.c'', ''cpp''), (''.cpp'', ''cpp''),
          (''.h'', ''h''), (''.hpp'', ''h''), (''.hh'', ''h''), (''.i'', ''h''), (''.inc'', ''h''),
          (''.rc'', ''windowsresource''), (''.r'', ''macresource''), (''.rsrc'', ''macresource''),
          (''.hlsl'', ''hlsl'')} \<and> endswith (lower baseName) ext"
  then have "(ext, cat) \<in> set codeExtensions"
    unfolding codeExtensions_def by auto
  with a have "findextension codeExtensions (lower baseName) = Some cat"
    by (simp add: findextension_codeExtensions)
  with assms show "scanname solution fs folder searchDir codefiles baseName =
      codefiles @
        [\<lparr>filename = (if folder = ''.'' then baseName else folder @ ''/'' @ baseName),
          directory = searchDir, type = cat, uuid = '''', typeuuid = ''''\<rparr>]"
    by (simp add: scanname_def skipname_iff SourceFile0_def ossep_def)
next
  assume "\<forall>e \<in> set (map fst codeExtensions). \<not> endswith (lower baseName) e"
  then have "findextension codeExtensions (lower baseName) = None"
    by (auto simp: findextension_None)
  then show "scanname solution fs folder searchDir codefiles baseName = codefiles"
    by (simp add: scanname_def Let_def)
qed

theorem scanname_classifies_witness:
  "lower ''Main.CPP'' \<notin> lower ` set (exclude example_solution) \<and>
   isfile example_fs (pathjoin ''/proj/src'' ''Main.CPP'') \<and>
   endswith (lower ''Main.CPP'') ''.cpp'' \<and>
   scanname example_solution example_fs ''src'' ''/proj/src'' [] ''Main.CPP'' =
     [\<lparr>filename = ''src/Main.CPP'', directory = ''/proj/src'', type = ''cpp'',
       uuid = '''', typeuuid = ''''\<rparr>] \<and>
   lower ''notes.md'' \<notin> lower ` set (exclude example_solution) \<and>
   isfile example_fs (pathjoin ''/proj/.'' ''notes.md'') \<and>
   findextension codeExtensions (lower ''notes.md'') = None \<and>
   scanname example_solution example_fs ''.'' ''/proj/.'' [] ''notes.md'' = []"
proof -
  have h1: "lower ''Main.CPP'' \<notin> lower ` set (exclude example_solution)"
    by (simp add: example_solution_def lower_def lower_char_def)
  have h2: "isfile example_fs (pathjoin ''/proj/src'' ''Main.CPP'')"
    by (simp add: example_fs_def)
  have h3: "endswith (lower ''Main.CPP'') ''.cpp''"
    by (simp add: endswith_def lower_def lower_char_def)
  have h4: "lower ''notes.md'' \<notin> lower ` set (exclude example_solution)"
    by (simp add: example_solution_def lower_def lower_char_def)
  have h5: "isfile example_fs (pathjoin ''/proj/.'' ''notes.md'')"
    by (simp add: example_fs_def)
  have h6: "\<forall>e \<in> set (map fst codeExtensions). \<not> endswith (lower ''notes.md'') e"
    by (simp add: codeExtensions_def endswith_def lower_def lower_char_def)
  have h7: "findextension codeExtensions (lower ''notes.md'') = None"
    using h6 by (auto simp: findextension_None)
  from scanname_classifies [OF h1 h2, of "''.cpp''" "''cpp''" "''src''" "[]"]
    scanname_classifies [OF h4 h5, of "''.cpp''" "''cpp''" "''.''" "[]"]
    h1 h2 h3 h4 h5 h6 h7
  show ?thesis by simp
qed

lemma scanname_append:
  "scanname solution fs folder searchDir codefiles baseName =
   codefiles @ scanname solution fs folder searchDir [] baseName"
  by (simp add: scanname_def Let_def split: option.splits)

lemma foldl_scanname_concat:
  "foldl (scanname solution fs folder searchDir) codefiles names =
   codefiles @ concat (map (scanname solution fs folder searchDir []) names)"
proof (induction names arbitrary: codefiles)
  case Nil
  show ?case by simp
next
  case (Cons b names)
  show ?case
    by (simp add: Cons.IH [of "scanname solution fs folder searchDir codefiles b"])
      (subst scanname_append, simp)
qed

lemma mset_concat_map:
  "mset (concat (map g xs)) = sum_mset (image_mset (\<lambda>x. mset (g x)) (mset xs))"
  by (induction xs) simp_all

lemma mset_two:
  assumes "mset ys = {#a, b#}"
  shows "ys = [a, b] \<or> ys = [b, a]"
proof -
  from assms have "length ys = 2"
    by (metis size_mset size_add_mset size_empty numeral_2_eq_2)
  then obtain x y where ys: "ys = [x, y]"
    by (auto simp: length_Suc_conv numeral_2_eq_2)
  with assms show ?thesis
    by (auto simp: add_eq_conv_ex)
qed

lemma sort_key_two:
  assumes "mset ys = {#a, b#}" "f a < f b"
  shows "sort_key f ys = [a, b]"
  using mset_two [OF assms(1)] assms(2) by auto

text \<open>
  C8.  With the source folder \<open>.\<close> and \<open>readme.txt\<close> excluded, over a directory
  whose listing holds \<open>a.cpp\<close>, \<open>b.h\<close>, \<open>readme.txt\<close> and \<open>notes.md\<close> in any
  order, \<open>getfilelist\<close> returns the catalog of \<open>a.cpp\<close> (bucket \<open>cpp\<close>, the
  translation unit) followed by \<open>b.h\<close> (bucket \<open>h\<close>, the header) and nothing else,
  and the include directories \<open>[.]\<close>.
\<close>

theorem getfilelist_roundtrip:
  assumes "sourcefolders solution = [''.'']" and "exclude solution = [''readme.txt'']"
    and "isdir fs (pathjoin (workingDir solution) ''.'')"
    and "mset (listdir fs (pathjoin (workingDir solution) ''.'')) =
           mset [''a.cpp'', ''b.h'', ''readme.txt'', ''notes.md'']"
    and "isfile fs (pathjoin (pathjoin (workingDir solution) ''.'') ''a.cpp'')"
    and "isfile fs (pathjoin (pathjoin (workingDir solution) ''.'') ''b.h'')"
  shows "getfilelist solution fs =
     ([\<lparr>filename = ''a.cpp'', directory = pathjoin (workingDir solution) ''.'', type = ''cpp'',
        uuid = '''', typeuuid = ''''\<rparr>,
       \<lparr>filename = ''b.h'', directory = pathjoin (workingDir solution) ''.'', type = ''h'',
        uuid = '''', typeuuid = ''''\<rparr>],
      [''.''])"
proof -
  define searchDir where "searchDir = pathjoin (workingDir solution) ''.''"
  define A where "A = \<lparr>filename = ''a.cpp'', directory = searchDir, type = ''cpp'',
        uuid = '''', typeuuid = ''''\<rparr>"
  define B where "B = \<lparr>filename = ''b.h'', directory = searchDir, type = ''h'',
        uuid = '''', typeuuid = ''''\<rparr>"
  define S where "S = scandirectory solution fs ''.'' []"
  have sa: "scanname solution fs ''.'' searchDir [] ''a.cpp'' = [A]"
    using assms(2,5)
    by (simp add: scanname_def codeExtensions_def endswith_def lower_def lower_char_def
        SourceFile0_def A_def searchDir_def)
  have sb: "scanname solution fs ''.'' searchDir [] ''b.h'' = [B]"
    using assms(2,6)
    by (simp add: scanname_def codeExtensions_def endswith_def lower_def lower_char_def
        SourceFile0_def B_def searchDir_def)
  have sr: "scanname solution fs ''.'' searchDir [] ''readme.txt'' = []"
    using assms(2) by (simp add: scanname_def lower_def lower_char_def)
  have sn: "scanname solution fs ''.'' searchDir [] ''notes.md'' = []"
    using assms(2)
    by (simp add: scanname_def codeExtensions_def endswith_def lower_def lower_char_def Let_def)
  have "S = concat (map (scanname solution fs ''.'' searchDir [])
      (listdir fs searchDir))"
    using assms(3)
    by (simp add: S_def scandirectory_def searchDir_def [symmetric] foldl_scanname_concat)
  then have "mset S = sum_mset (image_mset (\<lambda>x. mset (scanname solution fs ''.'' searchDir [] x))
      (mset [''a.cpp'', ''b.h'', ''readme.txt'', ''notes.md'']))"
    using assms(4) by (simp only: mset_concat_map searchDir_def)
  then have m: "mset S = {#A, B#}"
    by (simp add: sa sb sr sn)
  then have "S \<noteq> []"
    by auto
  then have st: "foldl (scanfolder solution fs) ([], []) (sourcefolders solution) = (S, [''.''])"
    using assms(1) by (simp add: scanfolder_def S_def [symmetric])
  have "converttowindowsslashes (filename A) < converttowindowsslashes (filename B)"
    by (simp add: A_def B_def converttowindowsslashes_def replace_def)
  with m have "sort_key (\<lambda>x. converttowindowsslashes (filename x)) S = [A, B]"
    by (rule sort_key_two)
  with st show ?thesis
    by (simp add: getfilelist_def A_def B_def searchDir_def)
qed

theorem getfilelist_roundtrip_witness:
  "sourcefolders example_solution = [''.''] \<and> exclude example_solution = [''readme.txt''] \<and>
   isdir example_fs (pathjoin (workingDir example_solution) ''.'') \<and>
   mset (listdir example_fs (pathjoin (workingDir example_solution) ''.'')) =
     mset [''a.cpp'', ''b.h'', ''readme.txt'', ''notes.md''] \<and>
   isfile example_fs (pathjoin (pathjoin (workingDir example_solution) ''.'') ''a.cpp'') \<and>
   isfile example_fs (pathjoin (pathjoin (workingDir example_solution) ''.'') ''b.h'') \<and>
   getfilelist example_solution example_fs =
     ([\<lparr>filename = ''a.cpp'', directory = ''/proj/.'', type = ''cpp'',
        uuid = '''', typeuuid = ''''\<rparr>,
       \<lparr>filename = ''b.h'', directory = ''/proj/.'', type = ''h'',
        uuid = '''', typeuuid = ''''\<rparr>],
      [''.''])"
proof -
  have j: "pathjoin (workingDir example_solution) ''.'' = ''/proj/.''"
    by (simp add: example_solution_def pathjoin_def startswith_def endswith_def)
  have h1: "sourcefolders example_solution = [''.'']"
    and h2: "exclude example_solution = [''readme.txt'']"
    by (simp_all add: example_solution_def)
  have h3: "isdir example_fs (pathjoin (workingDir example_solution) ''.'')"
    by (simp add: j example_fs_def)
  have h4: "mset (listdir example_fs (pathjoin (workingDir example_solution) ''.'')) =
      mset [''a.cpp'', ''b.h'', ''readme.txt'', ''notes.md'']"
    by (simp add: j example_fs_def)
  have h5: "isfile example_fs (pathjoin (pathjoin (workingDir example_solution) ''.'') ''a.cpp'')"
    and h6: "isfile example_fs (pathjoin (pathjoin (workingDir example_solution) ''.'') ''b.h'')"
    by (simp_all add: example_fs_def)
  from getfilelist_roundtrip [OF h1 h2 h3 h4 h5 h6] h1 h2 h3 h4 h5 h6 j
  show ?thesis by simp
qed

section \<open>Properties of the Xcode project model\<close>

lemma replace_absent: "a \<notin> set s \<Longrightarrow> replace a b s = s"
  by (induction s) (auto simp: replace_def)

lemma attachuuids_fields:
  "filename (attachuuids item) = filename item \<and>
   directory (attachuuids item) = directory item \<and>
   type (attachuuids item) = type item"
  by (simp add: attachuuids_def split: option.splits)

text \<open>
  C10 (as stated, refuted).  The claim says that the \<open>filename\<close> of every catalog
  entry is after the emitters what Discovery made it.  For the source folder
  \<open>src\\core\<close> Discovery makes the name \<open>src\\core/a.cpp\<close>, and
  \<open>createxcodesolution\<close> rewrites it to \<open>src/core/a.cpp\<close> before it attaches the
  identifiers.
\<close>

theorem xcode_rewrites_filename:
  "map filename (fst (getfilelist backslash_solution backslash_fs)) =
     [''src'' @ [BSLASH] @ ''core/a.cpp''] \<and>
   map filename (xcodecatalog (fst (getfilelist backslash_solution backslash_fs))) =
     [''src/core/a.cpp'']"
proof -
  have "fst (getfilelist backslash_solution backslash_fs) =
      [\<lparr>filename = ''src'' @ [BSLASH] @ ''core/a.cpp'',
        directory = ''/proj/src'' @ [BSLASH] @ ''core'', type = ''cpp'',
        uuid = '''', typeuuid = ''''\<rparr>]"
    by (simp add: getfilelist_def scanfolder_def scandirectory_def scanname_def
        backslash_solution_def backslash_fs_def example_solution_def pathjoin_def
        startswith_def endswith_def lower_def lower_char_def codeExtensions_def
        SourceFile0_def ossep_def)
  then show ?thesis
    by (simp add: xcodecatalog_def fixupcodefiles_def fixupfilename_def attachuuids_fields
        converttolinuxslashes_def replace_def)
qed

text \<open>
  C10 (amended).  The only fields of a catalog entry that \<open>createxcodesolution\<close>
  changes are \<open>filename\<close>, which becomes its slash form, and the two identifiers.
  The entries it leaves are the entries of the catalog changed in that way; the
  \<open>directory\<close> and the \<open>type\<close> of every entry stay what Discovery made them, and so
  does the \<open>filename\<close> of every entry whose name holds no backslash.
\<close>

theorem xcode_keeps_catalog_fields:
  "mset (xcodecatalog catalog) =
     image_mset (\<lambda>e. attachuuids (fixupfilename e)) (mset catalog) \<and>
   directory (attachuuids (fixupfilename e)) = directory e \<and>
   type (attachuuids (fixupfilename e)) = type e \<and>
   filename (attachuuids (fixupfilename e)) = converttolinuxslashes (filename e) \<and>
   (BSLASH \<notin> set (filename e) \<longrightarrow> filename (attachuuids (fixupfilename e)) = filename e)"
proof -
  have "mset (xcodecatalog catalog) =
      image_mset (\<lambda>e. attachuuids (fixupfilename e)) (mset catalog)"
    by (simp add: xcodecatalog_def fixupcodefiles_def image_mset.compositionality comp_def)
  then show ?thesis
    by (simp add: attachuuids_fields fixupfilename_def converttolinuxslashes_def
        replace_absent)
qed

theorem xcode_keeps_catalog_fields_witness:
  "BSLASH \<notin> set ''src/a.cpp'' \<and>
   filename (attachuuids (fixupfilename
     \<lparr>filename = ''src/a.cpp'', directory = ''/proj/src'', type = ''cpp'',
      uuid = '''', typeuuid = ''''\<rparr>)) = ''src/a.cpp'' \<and>
   directory (attachuuids (fixupfilename
     \<lparr>filename = ''src/a.cpp'', directory = ''/proj/src'', type = ''cpp'',
      uuid = '''', typeuuid = ''''\<rparr>)) = ''/proj/src''"
  using xcode_keeps_catalog_fields [of "[]"
      "\<lparr>filename = ''src/a.cpp'', directory = ''/proj/src'', type = ''cpp'',
        uuid = '''', typeuuid = ''''\<rparr>"]
  by (simp add: converttolinuxslashes_def replace_def)

text \<open>
  C2 (as stated, refuted).  The claim says the identifiers of the Products group of
  two projects with different names differ.  The source gives the Products group the
  literal identifier \<open>1AB674ADFE9D54B511CA2CBB\<close>, so the projects \<open>Alpha\<close> and
  \<open>Beta\<close> get the same one.
\<close>

theorem productsuuid_same_for_alpha_and_beta:
  "projectname alpha_solution \<noteq> projectname beta_solution \<and>
   map_sum id productsuuid (solutionuuids alpha_solution) = Inr ''1AB674ADFE9D54B511CA2CBB'' \<and>
   map_sum id productsuuid (solutionuuids beta_solution) = Inr ''1AB674ADFE9D54B511CA2CBB''"
  by (simp add: solutionuuids_def projectcodes_def getidecode_def getplatformcode_def
      alpha_solution_def beta_solution_def example_solution_def)

text \<open>
  C2 (amended).  The identifier of the Products group is the literal
  \<open>1AB674ADFE9D54B511CA2CBB\<close> for every project, so it is equal for two runs whatever
  the project names.  The identifiers of the other objects of the project (the project
  root, the build phases, the native target and its configuration list, the project's
  configuration list) have the key made of a literal role name, the project name, the
  IDE code and the platform code.
\<close>

theorem solutionuuids_keys:
  assumes "solutionuuids s1 = Inr u1" and "solutionuuids s2 = Inr u2"
  shows "productsuuid u1 = ''1AB674ADFE9D54B511CA2CBB'' \<and> productsuuid u1 = productsuuid u2 \<and>
    (\<exists>idecode platformcode.
       getidecode s1 = Some idecode \<and> getplatformcode (platform s1) = Some platformcode \<and>
       rootuuid u1 = xcodeuuid (''PBXProjectRoot'' @ projectname s1 @ idecode @ platformcode) \<and>
       shellscriptuuid u1 =
         xcodeuuid (''PBXShellScriptBuildPhase'' @ projectname s1 @ idecode @ platformcode) \<and>
       frameworksuuid u1 =
         xcodeuuid (''PBXFrameworksBuildPhase'' @ projectname s1 @ idecode @ platformcode) \<and>
       sourcesuuid u1 =
         xcodeuuid (''PBXSourcesBuildPhase'' @ projectname s1 @ idecode @ platformcode) \<and>
       headersuuid u1 =
         xcodeuuid (''PBXHeadersBuildPhase'' @ projectname s1 @ idecode @ platformcode) \<and>
       nativetargetuuid u1 =
         xcodeuuid (''PBXNativeTarget'' @ projectname s1 @ idecode @ platformcode) \<and>
       tonativetargetuuid u1 =
         xcodeuuid (''ToPBXNativeTarget'' @ projectname s1 @ idecode @ platformcode) \<and>
       pbxprojectuuid u1 =
         xcodeuuid (''PBXProject'' @ projectname s1 @ idecode @ platformcode))"
  using assms
  by (auto simp: solutionuuids_def projectcodes_def split: option.splits sum.splits)

theorem solutionuuids_keys_witness:
  "solutionuuids alpha_solution \<noteq> Inl TypeError \<and>
   solutionuuids beta_solution \<noteq> Inl TypeError \<and>
   map_sum id rootuuid (solutionuuids alpha_solution) =
     Inr (xcodeuuid ''PBXProjectRootAlphaxc3osx'') \<and>
   map_sum id productsuuid (solutionuuids alpha_solution) =
     map_sum id productsuuid (solutionuuids beta_solution)"
proof -
  obtain u1 where u1: "solutionuuids alpha_solution = Inr u1"
    by (simp add: solutionuuids_def projectcodes_def getidecode_def getplatformcode_def
        alpha_solution_def example_solution_def)
  obtain u2 where u2: "solutionuuids beta_solution = Inr u2"
    by (simp add: solutionuuids_def projectcodes_def getidecode_def getplatformcode_def
        beta_solution_def example_solution_def)
  have c: "getidecode alpha_solution = Some ''xc3''"
    "getplatformcode (platform alpha_solution) = Some ''osx''"
    "projectname alpha_solution = ''Alpha''"
    by (simp_all add: getidecode_def getplatformcode_def alpha_solution_def
        example_solution_def)
  from solutionuuids_keys [OF u1 u2] c u1 u2 show ?thesis
    by auto
qed

subsection \<open>Groups and group tree\<close>





lemma set_itemnodes:
  "set (itemnodes d) = (\<Union>p\<in>set d. insert [fst p] ((#) (fst p) ` set (treenodes (snd p))))"
  by (induction d) auto







lemma extractgroupname_examples:
  "extractgroupname ''main.cpp'' = ''''"
  "extractgroupname ''src/a.cpp'' = ''src''"
  "extractgroupname ''a/util/x.cpp'' = ''a/util''"
  "extractgroupname ''b/util/y.cpp'' = ''b/util''"
  by (simp_all add: extractgroupname_def groupdirectory_def lastseparator_def rfind_def
      slice_to_def slice_from_def startswith_def strip_dotdot.simps)












subsection \<open>Group identifiers\<close>

lemma rfind_from_absent: "c \<notin> set xs \<Longrightarrow> rfind_from c xs i found = found"
  by (induction xs arbitrary: i found) auto

lemma rfind_from_append:
  "rfind_from c (xs @ ys) i found =
     rfind_from c ys (i + int (length xs)) (rfind_from c xs i found)"
  by (induction xs arbitrary: i found) (auto simp: add.assoc)

lemma rfind_absent: "c \<notin> set s \<Longrightarrow> rfind s c = - 1"
  by (simp add: rfind_def rfind_from_absent)

lemma rfind_last: "c \<notin> set ys \<Longrightarrow> rfind (xs @ c # ys) c = int (length xs)"
  by (simp add: rfind_def rfind_from_append rfind_from_absent)

lemma dumptreevsxcode_appends:
  assumes "string \<noteq> ''''" and "dumptreevsxcode string entry xcodepbxgroups groups = Inr r"
  shows "fst r = [] \<and>
    (\<exists>rest out.
       snd r = rest @
         [(xcodeuuid (''PBXGroup!'' @
             (if rfind string SLASH = - 1 then string
              else slice_from string (rfind string SLASH + 1))), out)])"
proof -
  obtain d where e: "entry = Dict d" by (cases entry)
  from assms(2) obtain q where q: "dumpentry string d [] xcodepbxgroups groups = Inr q"
    and g: "dumpgroup string (fst q) (snd q) groups = Inr r"
    by (auto simp: e split: sum.splits)
  from g assms(1) show ?thesis
    by (auto simp: dumpgroup_def Let_def split: sum.splits option.splits list.splits if_splits)
qed

text \<open>
  The identifier of a group tree node is derived from the key \<open>PBXGroup!\<close> followed
  by the name of the node's own part alone: whether the node is at the top (its path is
  the part) or below a parent path (its path is the parent path, a slash and the part),
  a call of \<open>dumptreevsxcode\<close> for it that returns has appended, last, a group with
  the identifier \<open>xcodeuuid ('PBXGroup!' + part)\<close>.  The parent path, which the
  function has at hand in \<open>string\<close>, does not enter the key.
\<close>

lemma group_identifier_from_part:
  assumes "SLASH \<notin> set part" and "part \<noteq> ''''"
    and "string = part \<or> string = parent @ ''/'' @ part"
    and "dumptreevsxcode string entry xcodepbxgroups groups = Inr r"
  shows "\<exists>rest out. snd r = rest @ [(xcodeuuid (''PBXGroup!'' @ part), out)]"
proof -
  from assms(2,3) have ne: "string \<noteq> ''''" by auto
  have "(if rfind string SLASH = - 1 then string
         else slice_from string (rfind string SLASH + 1)) = part"
    using assms(3)
  proof
    assume "string = part"
    with assms(1) show ?thesis by (simp add: rfind_absent)
  next
    assume s: "string = parent @ ''/'' @ part"
    have "rfind string SLASH = int (length parent)"
      unfolding s using rfind_last [OF assms(1), of parent] by simp
    moreover have "nat (int (length parent) + 1) = Suc (length parent)"
      by simp
    ultimately show ?thesis by (simp add: s slice_from_def)
  qed
  with dumptreevsxcode_appends [OF ne assms(4)] show ?thesis by simp
qed

text \<open>
  C3 (failing input).  An Xcode project with the source folders \<open>a/util\<close> and
  \<open>b/util\<close> has the two distinct group nodes \<open>a/util\<close> and \<open>b/util\<close>.  The
  run gives both the identifier \<open>xcodeuuid 'PBXGroup!util'\<close>: after the Products
  group, the groups appended are \<open>a/util\<close>, \<open>a\<close>, \<open>b/util\<close>, \<open>b\<close>, or the
  same with \<open>a\<close> and \<open>b\<close> exchanged, depending on which of the two files has
  the smaller \<open>typeuuid\<close>, and in both cases the identifier of the \<open>util\<close> groups
  occurs twice.
\<close>

theorem xcode_util_groups_collide:
  "map_sum id (\<lambda>r. map fst (snd r)) (xcodegroups (\<lambda>keys. keys) util_solution util_fs) =
     Inr [''1AB674ADFE9D54B511CA2CBB'',
          xcodeuuid ''PBXGroup!util'', xcodeuuid ''PBXGroup!a'',
          xcodeuuid ''PBXGroup!util'', xcodeuuid ''PBXGroup!b''] \<or>
   map_sum id (\<lambda>r. map fst (snd r)) (xcodegroups (\<lambda>keys. keys) util_solution util_fs) =
     Inr [''1AB674ADFE9D54B511CA2CBB'',
          xcodeuuid ''PBXGroup!util'', xcodeuuid ''PBXGroup!b'',
          xcodeuuid ''PBXGroup!util'', xcodeuuid ''PBXGroup!a'']"
proof -
  define A0 where "A0 = \<lparr>filename = ''a/util/x.cpp'', directory = ''/proj/a/util'',
    type = ''cpp'', uuid = '''', typeuuid = ''''\<rparr>"
  define B0 where "B0 = \<lparr>filename = ''b/util/y.cpp'', directory = ''/proj/b/util'',
    type = ''cpp'', uuid = '''', typeuuid = ''''\<rparr>"
  define A where "A = A0\<lparr>uuid := xcodeuuid ''a/util/x.cpp'',
    typeuuid := xcodeuuid ''a/util/x.cpp:Sources''\<rparr>"
  define B where "B = B0\<lparr>uuid := xcodeuuid ''b/util/y.cpp'',
    typeuuid := xcodeuuid ''b/util/y.cpp:Sources''\<rparr>"
  define E1 where "E1 = SourceFile0\<lparr>filename := ''burger.libxcoosx.xcconfig'',
    uuid := xcodeuuid ''burger.libxcoosx.xcconfig'', type := ''text.xcconfig''\<rparr>"
  define E2 where "E2 = SourceFile0\<lparr>type := ''lib'', filename := ''libburgerbasexc3osx.a'',
    uuid := xcodeuuid ''libburgerbasexc3osx.a:Alphaxc3osx''\<rparr>"
  have pc: "projectcodes util_solution = Inr (''xc3'', ''Alphaxc3osx'')"
    by (simp add: projectcodes_def getidecode_def getplatformcode_def util_solution_def
        example_solution_def)
  have kd: "kind util_solution = ''library''" "projectname util_solution = ''Alpha''"
    by (simp_all add: util_solution_def)
  have g: "getfilelist util_solution util_fs = ([A0, B0], [''a/util'', ''b/util''])"
    by (simp add: getfilelist_def scanfolder_def scandirectory_def scanname_def
        util_solution_def util_fs_def example_solution_def pathjoin_def
        startswith_def endswith_def lower_def lower_char_def codeExtensions_def
        SourceFile0_def ossep_def A0_def B0_def converttowindowsslashes_def replace_def)
  have f: "fixupcodefiles [A0, B0] = [A0, B0]"
    by (simp add: fixupcodefiles_def fixupfilename_def converttolinuxslashes_def replace_def
        A0_def B0_def)
  have tp: "toprocess util_solution [A0, B0] = [A, B]"
    by (simp add: toprocess_def buildphase_def attachuuids_def frameworks_def kd
        A_def B_def A0_def B0_def)
  have names: "filename A = ''a/util/x.cpp''" "filename B = ''b/util/y.cpp''"
    "filename E1 = ''burger.libxcoosx.xcconfig''" "filename E2 = ''libburgerbasexc3osx.a''"
    by (simp_all add: A_def B_def A0_def B0_def E1_def E2_def SourceFile0_def)
  have eg: "extractgroupname ''burger.libxcoosx.xcconfig'' = ''''"
    "extractgroupname ''libburgerbasexc3osx.a'' = ''''"
    by (simp_all add: extractgroupname_def lastseparator_def rfind_def)
  have cf: "xcodecodefiles util_solution [A0, B0] = Inr (sort_key typeuuid [A, B] @ [E1, E2])"
    by (simp add: xcodecodefiles_def pc f tp kd configfilename_def outputfilename_def
        E1_def E2_def)
  have ids: "\<exists>u. solutionuuids util_solution = Inr u \<and>
      productsuuid u = ''1AB674ADFE9D54B511CA2CBB''"
    by (simp add: solutionuuids_def pc)
  then obtain u where u: "solutionuuids util_solution = Inr u"
    "productsuuid u = ''1AB674ADFE9D54B511CA2CBB''"
    by blast
  have "sort_key typeuuid [A, B] = [A, B] \<or> sort_key typeuuid [A, B] = [B, A]"
    by simp
  then show ?thesis
  proof
    assume s: "sort_key typeuuid [A, B] = [A, B]"
    have gr: "makegroups [A, B, E1, E2] =
        [(''a/util'', [A]), (''b/util'', [B]), ('''', [E1, E2])]"
      by (simp add: makegroups_def appendto_def names extractgroupname_examples eg)
    have tr: "maketree SLASH [''a/util'', ''b/util'', ''''] =
        Dict [(''a'', Dict [(''util'', Dict [])]), (''b'', Dict [(''util'', Dict [])]),
              ('''', Dict [])]"
      by (simp add: maketree_def Let_def)
    have "map_sum id (\<lambda>r. map fst (snd r))
        (xcodegroups (\<lambda>keys. keys) util_solution util_fs) =
      Inr [''1AB674ADFE9D54B511CA2CBB'',
          xcodeuuid ''PBXGroup!util'', xcodeuuid ''PBXGroup!a'',
          xcodeuuid ''PBXGroup!util'', xcodeuuid ''PBXGroup!b'']"
      by (simp add: xcodegroups_def xcodemodel_def g cf [unfolded s] u pc gr tr dumpgroup_def
          rfind_def slice_from_def slice_to_def Let_def)
    then show ?thesis ..
  next
    assume s: "sort_key typeuuid [A, B] = [B, A]"
    have gr: "makegroups [B, A, E1, E2] =
        [(''b/util'', [B]), (''a/util'', [A]), ('''', [E1, E2])]"
      by (simp add: makegroups_def appendto_def names extractgroupname_examples eg)
    have tr: "maketree SLASH [''b/util'', ''a/util'', ''''] =
        Dict [(''b'', Dict [(''util'', Dict [])]), (''a'', Dict [(''util'', Dict [])]),
              ('''', Dict [])]"
      by (simp add: maketree_def Let_def)
    have "map_sum id (\<lambda>r. map fst (snd r))
        (xcodegroups (\<lambda>keys. keys) util_solution util_fs) =
      Inr [''1AB674ADFE9D54B511CA2CBB'',
          xcodeuuid ''PBXGroup!util'', xcodeuuid ''PBXGroup!b'',
          xcodeuuid ''PBXGroup!util'', xcodeuuid ''PBXGroup!a'']"
      by (simp add: xcodegroups_def xcodemodel_def g cf [unfolded s] u pc gr tr dumpgroup_def
          rfind_def slice_from_def slice_to_def Let_def)
    then show ?thesis ..
  qed
qed

subsection \<open>Determinism\<close>













end
